theory Spec2Isabelle
  imports Main
begin

section \<open>Errors\<close>

text \<open>
  Every error value the authentication core can return. Go wraps errors with
  \<^verbatim>\<open>fmt.Errorf("%s: %w", op, err)\<close>; wrapping keeps the identity that
  \<^verbatim>\<open>errors.Is\<close> looks for, so a wrapped error is modelled by the sentinel it wraps and
  \<^verbatim>\<open>errors.Is(err, target)\<close> by equality.

  The first five constructors are the variables of \<^verbatim>\<open>services/auth\<close>, the next two the
  sentinels of the provider package (\<^verbatim>\<open>storage.ErrUserNotFound\<close>,
  \<^verbatim>\<open>storage.ErrUserExists\<close>), then \<^verbatim>\<open>jwt.ErrUserUnauthorized\<close> of \<^verbatim>\<open>lib/jwt\<close>. The remaining
  constructors are errors created inline (\<^verbatim>\<open>errors.New\<close>) and errors of the libraries the
  code calls: golang-jwt, bcrypt, the Postgres driver and \<^verbatim>\<open>net/http\<close>; the last
  two are \<^verbatim>\<open>ErrUserNotFound\<close> as the user service declares it, in its storage package
  and in its service package.
\<close>

datatype error =
    ErrInvalidCredentials
  | ErrFailedToGetUser
  | ErrInvalidAppID
  | ErrUserExists
  | ErrUserNotFound
  | storage_ErrUserNotFound
  | storage_ErrUserExists
  | ErrUserUnauthorized
  | errors_New string
  | jwt_ErrTokenMalformed
  | jwt_ErrTokenUnverifiable
  | jwt_ErrTokenSignatureInvalid
  | jwt_ErrTokenInvalidClaims
  | jwt_ErrInvalidKeyType
  | bcrypt_ErrMismatchedHashAndPassword
  | bcrypt_ErrHashTooShort
  | bcrypt_ErrPasswordTooLong
  | pgx_ErrNoRows
  | pg_UniqueViolation
  | pg_ConnectionError
  | http_UnexpectedStatus nat
  | http_ErrNoCookie
  | usersvc_storage_ErrUserNotFound
  | usersvc_ErrUserNotFound

section \<open>Identities\<close>

text \<open>
  \<^verbatim>\<open>uuid.UUID\<close> is sixteen bytes; a value is represented here by its canonical text, the
  36 characters \<^verbatim>\<open>xxxxxxxx-xxxx-xxxx-xxxx-xxxxxxxxxxxx\<close> in lower-case hexadecimal, which is
  what \<^verbatim>\<open>UUID.String\<close> and the JSON encoding of a UUID produce.
\<close>

type_synonym uuid = string

definition uuid_String :: "uuid \<Rightarrow> string" where
  "uuid_String u = u"

definition xdigit :: "char \<Rightarrow> bool" where
  "xdigit c = (c \<in> set ''0123456789abcdefABCDEF'')"

definition lower_hex :: "char \<Rightarrow> char" where
  "lower_hex c =
     (if c = CHR ''A'' then CHR ''a'' else if c = CHR ''B'' then CHR ''b''
      else if c = CHR ''C'' then CHR ''c'' else if c = CHR ''D'' then CHR ''d''
      else if c = CHR ''E'' then CHR ''e'' else if c = CHR ''F'' then CHR ''f'' else c)"

text \<open>
  \<^verbatim>\<open>strings.EqualFold(s, "urn:uuid:")\<close>: equality up to the case of the five letters.
\<close>

definition lower_urn :: "char \<Rightarrow> char" where
  "lower_urn c =
     (if c = CHR ''U'' then CHR ''u'' else if c = CHR ''R'' then CHR ''r''
      else if c = CHR ''N'' then CHR ''n'' else if c = CHR ''I'' then CHR ''i''
      else if c = CHR ''D'' then CHR ''d'' else c)"

text \<open>The dashed form: dashes at offsets 8, 13, 18 and 23, hexadecimal digits elsewhere.\<close>

definition parse_dashed :: "string \<Rightarrow> uuid option" where
  "parse_dashed s =
     (if length s < 36 then None
      else if s ! 8 \<noteq> CHR ''-'' \<or> s ! 13 \<noteq> CHR ''-'' \<or> s ! 18 \<noteq> CHR ''-'' \<or> s ! 23 \<noteq> CHR ''-''
      then None
      else if list_all xdigit
             (take 8 s @ take 4 (drop 9 s) @ take 4 (drop 14 s) @ take 4 (drop 19 s)
                @ take 12 (drop 24 s))
      then Some (map lower_hex (take 36 s))
      else None)"

text \<open>
  \<^verbatim>\<open>uuid.Parse\<close> of google/uuid: it selects on the length of the text and accepts the
  dashed form, the same with a \<^verbatim>\<open>urn:uuid:\<close> prefix, the same between two further
  characters, and 32 bare hexadecimal digits; anything else is an error.
\<close>

definition uuid_Parse :: "string \<Rightarrow> uuid option" where
  "uuid_Parse s =
     (if length s = 36 then parse_dashed s
      else if length s = 36 + 9 then
        (if map lower_urn (take 9 s) = ''urn:uuid:'' then parse_dashed (drop 9 s) else None)
      else if length s = 36 + 2 then parse_dashed (drop 1 s)
      else if length s = 32 then
        (if list_all xdigit s
         then Some (map lower_hex
                 (take 8 s @ ''-'' @ take 4 (drop 8 s) @ ''-'' @ take 4 (drop 12 s) @ ''-''
                    @ take 4 (drop 16 s) @ ''-'' @ drop 20 s))
         else None)
      else None)"

text \<open>\<^verbatim>\<open>models.NormalizedUser\<close>.\<close>

record NormalizedUser =
  UUID :: uuid
  Username :: string
  Email :: string

section \<open>The world the services run in\<close>

text \<open>
  All effects are explicit. The state holds
  \<^item> \<open>usvc\<close>: whatever lies behind the identity provider (\<^verbatim>\<open>UserProvider\<close>), of a type
    the auth service does not look into;
  \<^item> \<open>credentials\<close>: the table \<^verbatim>\<open>credentials(user_id, password_hash, ...)\<close> of
    \<^verbatim>\<open>credential.go\<close>, one row per \<^verbatim>\<open>user_id\<close>;
  \<^item> \<open>pg_begin_ok\<close>, \<open>pg_commit_ok\<close>: whether \<^verbatim>\<open>pool.Begin\<close> and \<^verbatim>\<open>tx.Commit\<close> succeed;
  \<^item> \<open>clock\<close>, \<open>elapse\<close>, \<open>tick\<close>: the clock. \<open>clock\<close> is the last reading of
    \<^verbatim>\<open>time.Now()\<close> in Unix seconds, \<open>elapse i\<close> the seconds that pass before reading number
    \<open>i\<close>, and \<open>tick\<close> the number of readings taken: time passes between any two readings
    by an amount the program does not choose, and never runs backwards;
  \<^item> \<open>entropy\<close>, \<open>drawn\<close>: the random numbers handed out, and how many have been;
  \<^item> \<open>outbox\<close>: the messages (recipient, text) handed to a notification channel. The
    specification names such a channel for the reset flow; \<^verbatim>\<open>AuthService\<close> has the fields
    \<^verbatim>\<open>auth\<close>, \<^verbatim>\<open>user\<close> and \<^verbatim>\<open>log\<close> only, so no operation below writes to it.
\<close>

text \<open>
  A password hash as stored (\<^verbatim>\<open>[]byte\<close>): either the encoding of a bcrypt hash, given by
  its cost, its salt and the bytes of the password that went into it, or any other bytes.
\<close>

datatype bytes = BcryptHash nat nat string | RawBytes string

record 'u world =
  usvc :: 'u
  credentials :: "uuid \<rightharpoonup> bytes"
  pg_begin_ok :: bool
  pg_commit_ok :: bool
  clock :: int
  elapse :: "nat \<Rightarrow> nat"
  tick :: nat
  entropy :: "nat \<Rightarrow> nat"
  drawn :: nat
  outbox :: "(string \<times> string) list"

definition time_Now :: "'u world \<Rightarrow> int \<times> 'u world" where
  "time_Now w =
     (let t = clock w + int (elapse w (tick w)) in (t, w\<lparr>clock := t, tick := Suc (tick w)\<rparr>))"

definition rand_Next :: "'u world \<Rightarrow> nat \<times> 'u world" where
  "rand_Next w = (entropy w (drawn w), w\<lparr>drawn := Suc (drawn w)\<rparr>)"

section \<open>The token library (golang-jwt v5), symbolically\<close>

text \<open>
  A claim value is a JSON value: a string, a number, or anything else. Numbers are
  whole seconds: the library truncates a numeric date to the second, and
  \<^verbatim>\<open>now < exp\<close> for a whole \<open>exp\<close> holds exactly when it holds for \<open>now\<close> rounded down.
\<close>

datatype json = JString string | JNumber int | JOther

type_synonym MapClaims = "string \<rightharpoonup> json"

datatype SigningMethod = HS256 | HS384 | HS512 | NonHMAC

text \<open>
  A signing method is one the library has registered: the three HMAC methods, or any
  other (\<open>NonHMAC\<close>: the RSA, ECDSA and EdDSA methods and \<^verbatim>\<open>none\<close>).

  The text presented as a token is one of four things, after the order in which the
  library takes it apart.
  \<^item> \<open>Compact m c sig\<close>: three segments that decode, the header naming the registered
    method \<open>m\<close>, the claim set \<open>c\<close>, and a signature. The signature is symbolic:
    \<open>Some k\<close> is the MAC of this header and these claims under the key \<open>k\<close> with the
    header's method, \<open>None\<close> is any other bytes.
  \<^item> \<open>NoSignature m c\<close>: header and claims as before, but the third segment is not
    base64url text.
  \<^item> \<open>NoMethod c\<close>: header and claim set decode, but the header names no registered
    method.
  \<^item> \<open>Text s\<close>: any other string: one that does not split into three segments, or whose
    header or claim segment does not decode. The empty string is \<open>Text []\<close>.
\<close>

datatype tokstr =
    Compact SigningMethod MapClaims "string option"
  | NoSignature SigningMethod MapClaims
  | NoMethod MapClaims
  | Text string

record Token =
  Method :: SigningMethod
  Claims :: MapClaims
  Valid :: bool

definition jwt_New :: "SigningMethod \<Rightarrow> Token" where
  "jwt_New m = \<lparr>Method = m, Claims = Map.empty, Valid = False\<rparr>"

text \<open>\<^verbatim>\<open>Token.SignedString(key)\<close> with a \<^verbatim>\<open>[]byte\<close> key: only the HMAC methods take one.\<close>

definition jwt_SignedString :: "Token \<Rightarrow> string \<Rightarrow> error + tokstr" where
  "jwt_SignedString t key =
     (if Method t = NonHMAC then Inl jwt_ErrInvalidKeyType
      else Inr (Compact (Method t) (Claims t) (Some key)))"

text \<open>\<^verbatim>\<open>SigningMethod.Verify\<close> with a \<^verbatim>\<open>[]byte\<close> key.\<close>

definition jwt_Verify :: "SigningMethod \<Rightarrow> string option \<Rightarrow> string \<Rightarrow> bool" where
  "jwt_Verify m sig key = (m \<noteq> NonHMAC \<and> sig = Some key)"

text \<open>
  \<^verbatim>\<open>time.Time\<close> counts seconds from the year 1 in an \<^verbatim>\<open>int64\<close>; \<open>unixToInternal\<close> is
  the number of seconds from there to 1970. A number of Unix seconds is a time that
  \<^verbatim>\<open>time.Time\<close> holds when it is an \<^verbatim>\<open>int64\<close> and stays one with that offset added.
\<close>

definition unixToInternal :: int where
  "unixToInternal = 62135596800"

definition time_representable :: "int \<Rightarrow> bool" where
  "time_representable t = (- (2 ^ 63) \<le> t \<and> t < 2 ^ 63 - unixToInternal)"

text \<open>
  \<^verbatim>\<open>MapClaims.parseNumericDate\<close>: a claim that is missing and the number 0 give no
  date. Any other number is converted to \<^verbatim>\<open>int64\<close> seconds and then to a
  \<^verbatim>\<open>time.Time\<close>; a number outside what that holds comes out as an instant long before
  1970. A value that is not a number is an error.
\<close>

datatype numericDate = Absent | Instant int | LongPast | NotANumber

definition parseNumericDate :: "MapClaims \<Rightarrow> string \<Rightarrow> numericDate" where
  "parseNumericDate m key =
     (case m key of
        None \<Rightarrow> Absent
      | Some (JNumber e) \<Rightarrow>
          if e = 0 then Absent
          else if time_representable e then Instant e
          else LongPast
      | Some _ \<Rightarrow> NotANumber)"

text \<open>
  The default validator: \<^verbatim>\<open>exp\<close> and \<^verbatim>\<open>nbf\<close> are checked when they give a date
  (neither is required), and a value that is not a number is an invalid claim.
\<close>

definition jwt_Validate :: "MapClaims \<Rightarrow> int \<Rightarrow> bool" where
  "jwt_Validate claims now =
     ((case parseNumericDate claims ''exp'' of
         Absent \<Rightarrow> True | Instant e \<Rightarrow> now < e | LongPast \<Rightarrow> False | NotANumber \<Rightarrow> False)
      \<and> (case parseNumericDate claims ''nbf'' of
         Absent \<Rightarrow> True | Instant n \<Rightarrow> n \<le> now | LongPast \<Rightarrow> True | NotANumber \<Rightarrow> False))"

text \<open>
  \<^verbatim>\<open>jwt.ParseWithClaims(tokenString, claims, keyFunc)\<close>. The result is the claim set the
  call leaves in \<^verbatim>\<open>claims\<close>, the token and the error. The library decodes header and
  claims first, so every failure after that leaves the claims filled: no registered
  method, a signature segment that does not decode, a key function that refuses, a
  signature that does not verify, claims that do not validate. The clock is read only
  when the signature has verified. (Where the library returns an error, the program does
  not read the token; the model gives none for text and for a header without a method.
  Some releases ask the key function before they decode the signature segment, which
  changes the kind of the error for a token with both faults and nothing else.)
\<close>

definition jwt_ParseWithClaims ::
  "tokstr \<Rightarrow> (Token \<Rightarrow> error + string) \<Rightarrow> 'u world
     \<Rightarrow> (MapClaims \<times> Token option \<times> error option) \<times> 'u world" where
  "jwt_ParseWithClaims tokenString keyFunc w =
     (case tokenString of
        Text s \<Rightarrow> ((Map.empty, None, Some jwt_ErrTokenMalformed), w)
      | NoMethod c \<Rightarrow> ((c, None, Some jwt_ErrTokenUnverifiable), w)
      | NoSignature m c \<Rightarrow>
          ((c, Some \<lparr>Method = m, Claims = c, Valid = False\<rparr>, Some jwt_ErrTokenMalformed), w)
      | Compact m c sig \<Rightarrow>
          (let token = \<lparr>Method = m, Claims = c, Valid = False\<rparr> in
           case keyFunc token of
             Inl e \<Rightarrow> ((c, Some token, Some jwt_ErrTokenUnverifiable), w)
           | Inr key \<Rightarrow>
               if \<not> jwt_Verify m sig key
               then ((c, Some token, Some jwt_ErrTokenSignatureInvalid), w)
               else (let (now, w') = time_Now w in
                     if \<not> jwt_Validate c now
                     then ((c, Some token, Some jwt_ErrTokenInvalidClaims), w')
                     else ((c, Some (token\<lparr>Valid := True\<rparr>), None), w'))))"

text \<open>\<^verbatim>\<open>jwt.Parse(tokenString, keyFunc)\<close>: the same with a fresh claim map.\<close>

definition jwt_Parse ::
  "tokstr \<Rightarrow> (Token \<Rightarrow> error + string) \<Rightarrow> 'u world
     \<Rightarrow> (Token option \<times> error option) \<times> 'u world" where
  "jwt_Parse tokenString keyFunc w =
     (let ((claims, token, err), w') = jwt_ParseWithClaims tokenString keyFunc w
      in ((token, err), w'))"

section \<open>Package jwt of the auth service\<close>

text \<open>The two durations, in seconds: \<^verbatim>\<open>15 * time.Minute\<close> and \<^verbatim>\<open>43200 * time.Minute\<close>.\<close>

definition accessDuration :: int where
  "accessDuration = 15 * 60"

definition refreshDuration :: int where
  "refreshDuration = 43200 * 60"

text \<open>
  \<^verbatim>\<open>NewPairTokens\<close>. The UUID is put into the claims as the string its JSON encoding
  gives. On an error the source returns two empty strings with it; the model returns the
  error alone.
\<close>

definition NewPairTokens ::
  "NormalizedUser \<Rightarrow> 'u world \<Rightarrow> (error + tokstr \<times> tokstr) \<times> 'u world" where
  "NewPairTokens user w =
     (let accessToken = jwt_New HS256;
          (now1, w1) = time_Now w;
          claims = (Claims accessToken)
            (''uuid'' \<mapsto> JString (uuid_String (UUID user)),
             ''username'' \<mapsto> JString (Username user),
             ''email'' \<mapsto> JString (Email user),
             ''exp'' \<mapsto> JNumber (now1 + accessDuration))
      in case jwt_SignedString (accessToken\<lparr>Claims := claims\<rparr>) ''somesecret'' of
           Inl err \<Rightarrow> (Inl err, w1)
         | Inr accessTokenString \<Rightarrow>
             (let refreshToken = jwt_New HS256;
                  (now2, w2) = time_Now w1;
                  claims = (Claims refreshToken)(''exp'' \<mapsto> JNumber (now2 + refreshDuration))
              in case jwt_SignedString (refreshToken\<lparr>Claims := claims\<rparr>) ''secret'' of
                   Inl err \<Rightarrow> (Inl err, w2)
                 | Inr refreshTokenString \<Rightarrow>
                     (Inr (accessTokenString, refreshTokenString), w2)))"

text \<open>
  \<^verbatim>\<open>extractUserFromClaims\<close>: three type assertions and a parse, in the source's order.
  (The messages are the source's, without the quotation marks around the claim name.)
\<close>

definition extractUserFromClaims :: "MapClaims \<Rightarrow> error + NormalizedUser" where
  "extractUserFromClaims claims =
     (case claims ''uuid'' of
        Some (JString uuidStr) \<Rightarrow>
          (case uuid_Parse uuidStr of
             None \<Rightarrow> Inl (errors_New ''failed to parse uuid from token claims'')
           | Some userUUID \<Rightarrow>
               (case claims ''username'' of
                  Some (JString username) \<Rightarrow>
                    (case claims ''email'' of
                       Some (JString email) \<Rightarrow>
                         Inr \<lparr>UUID = userUUID, Username = username, Email = email\<rparr>
                     | _ \<Rightarrow> Inl (errors_New ''missing or invalid email in token claims''))
                | _ \<Rightarrow> Inl (errors_New ''missing or invalid username in token claims'')))
      | _ \<Rightarrow> Inl (errors_New ''missing or invalid uuid in token claims''))"

text \<open>
  \<^verbatim>\<open>VerifyRefreshToken\<close>. The key function hands out the refresh secret whatever the
  method. The error of the parse is returned as it is; the test of \<^verbatim>\<open>Valid\<close> comes after.
  (The library returns no nil token without an error; the model answers that case as the
  test of \<^verbatim>\<open>Valid\<close> does.)
\<close>

definition refresh_keyFunc :: "Token \<Rightarrow> error + string" where
  "refresh_keyFunc token = Inr ''secret''"

definition VerifyRefreshToken ::
  "NormalizedUser \<Rightarrow> tokstr \<Rightarrow> 'u world
     \<Rightarrow> (error + tokstr \<times> tokstr \<times> NormalizedUser) \<times> 'u world" where
  "VerifyRefreshToken user refreshToken w =
     (let ((refreshtoken, err), w1) = jwt_Parse refreshToken refresh_keyFunc w in
      case err of
        Some e \<Rightarrow> (Inl e, w1)
      | None \<Rightarrow>
          (case refreshtoken of
             None \<Rightarrow> (Inl ErrUserUnauthorized, w1)
           | Some t \<Rightarrow>
               if \<not> Valid t then (Inl ErrUserUnauthorized, w1)
               else (case NewPairTokens user w1 of
                       (Inl e, w2) \<Rightarrow> (Inl e, w2)
                     | (Inr (newAccessToken, newRefreshToken), w2) \<Rightarrow>
                         (Inr (newAccessToken, newRefreshToken, user), w2))))"

text \<open>
  \<^verbatim>\<open>VerifyAccessToken\<close>. The key function refuses every method that is not HMAC and
  hands out the access secret otherwise. A result without a new pair carries two empty
  strings.
\<close>

definition access_keyFunc :: "Token \<Rightarrow> error + string" where
  "access_keyFunc token =
     (if Method token = NonHMAC then Inl (errors_New ''unexpected signing method'')
      else Inr ''somesecret'')"

definition token_invalid :: "Token option \<Rightarrow> bool" where
  "token_invalid t = (case t of None \<Rightarrow> True | Some t' \<Rightarrow> \<not> Valid t')"

definition VerifyAccessToken ::
  "tokstr \<Rightarrow> tokstr \<Rightarrow> 'u world
     \<Rightarrow> (error + tokstr \<times> tokstr \<times> NormalizedUser) \<times> 'u world" where
  "VerifyAccessToken accessToken refreshToken w =
     (let ((claims, accesstoken, err), w1) = jwt_ParseWithClaims accessToken access_keyFunc w in
      if err \<noteq> None \<or> token_invalid accesstoken then
        (case extractUserFromClaims claims of
           Inl userErr \<Rightarrow> (Inl ErrUserUnauthorized, w1)
         | Inr user \<Rightarrow> VerifyRefreshToken user refreshToken w1)
      else
        (case extractUserFromClaims claims of
           Inl userErr \<Rightarrow> (Inl userErr, w1)
         | Inr user \<Rightarrow> (Inr (Text [], Text [], user), w1)))"

section \<open>Password hashing and generation (bcrypt, gofakeit)\<close>

text \<open>
  What bcrypt reads of a password: the key schedule takes 72 bytes from the password
  followed by a zero byte, starting over at the end as often as needed. A hash is taken
  to determine its cost, its salt and these 72 bytes, and nothing else: two passwords
  with the same 72 bytes have the same hash.
\<close>

definition bcrypt_key :: "string \<Rightarrow> string" where
  "bcrypt_key password =
     map (\<lambda>i. (password @ [CHR 0x00]) ! (i mod (length password + 1))) [0..<72]"

text \<open>
  \<^verbatim>\<open>bcrypt.GenerateFromPassword\<close> draws a salt and refuses a password of more than 72
  bytes; \<^verbatim>\<open>bcrypt.CompareHashAndPassword\<close> rejects bytes that are no hash and otherwise
  hashes the password with the cost and the salt of the hash and compares.
\<close>

definition bcrypt_DefaultCost :: nat where
  "bcrypt_DefaultCost = 10"

definition bcrypt_GenerateFromPassword ::
  "string \<Rightarrow> nat \<Rightarrow> 'u world \<Rightarrow> (error + bytes) \<times> 'u world" where
  "bcrypt_GenerateFromPassword password cost w =
     (if length password > 72 then (Inl bcrypt_ErrPasswordTooLong, w)
      else (let (salt, w') = rand_Next w
            in (Inr (BcryptHash cost salt (bcrypt_key password)), w')))"

definition bcrypt_CompareHashAndPassword :: "bytes \<Rightarrow> string \<Rightarrow> error option" where
  "bcrypt_CompareHashAndPassword hashedPassword password =
     (case hashedPassword of
        RawBytes b \<Rightarrow> Some bcrypt_ErrHashTooShort
      | BcryptHash cost salt key \<Rightarrow>
          if bcrypt_key password = key then None
          else Some bcrypt_ErrMismatchedHashAndPassword)"













section \<open>The credential store (credential.go)\<close>

text \<open>
  Modelled from the spec: the schema of the table \<^verbatim>\<open>credentials\<close> is not among the sources.
  The specification has exactly one credential per identity, so \<^verbatim>\<open>user_id\<close> is the key of
  the table and an \<^verbatim>\<open>INSERT\<close> for a \<^verbatim>\<open>user_id\<close> that has a row violates it.
\<close>

definition credentials_key_taken :: "'u world \<Rightarrow> uuid \<Rightarrow> bool" where
  "credentials_key_taken w uid = (credentials w uid \<noteq> None)"

text \<open>
  Each method begins a transaction, runs one statement, and commits in a deferred
  function. \<^verbatim>\<open>Register\<close>, \<^verbatim>\<open>Login\<close> and \<^verbatim>\<open>ChangePassword\<close> have unnamed results, so the
  error the deferred function stores after a failed commit does not reach the caller;
  \<^verbatim>\<open>Password\<close> has named results, so there it does. No method turns a driver error into
  one of the sentinels of the provider package.
\<close>

definition Storage_Register :: "uuid \<Rightarrow> bytes \<Rightarrow> 'u world \<Rightarrow> error option \<times> 'u world" where
  "Storage_Register uid passHash w =
     (if \<not> pg_begin_ok w then (Some pg_ConnectionError, w)
      else if credentials_key_taken w uid then (Some pg_UniqueViolation, w)
      else if pg_commit_ok w then (None, w\<lparr>credentials := (credentials w)(uid \<mapsto> passHash)\<rparr>)
      else (None, w))"

definition Storage_Login :: "uuid \<Rightarrow> 'u world \<Rightarrow> (error + bytes) \<times> 'u world" where
  "Storage_Login uid w =
     (if \<not> pg_begin_ok w then (Inl pg_ConnectionError, w)
      else case credentials w uid of
             None \<Rightarrow> (Inl pgx_ErrNoRows, w)
           | Some password \<Rightarrow> (Inr password, w))"

definition Storage_Password :: "uuid \<Rightarrow> 'u world \<Rightarrow> (error + bytes) \<times> 'u world" where
  "Storage_Password uid w =
     (if \<not> pg_begin_ok w then (Inl pg_ConnectionError, w)
      else case credentials w uid of
             None \<Rightarrow> (Inl pgx_ErrNoRows, w)
           | Some password \<Rightarrow>
               if pg_commit_ok w then (Inr password, w) else (Inl pg_ConnectionError, w))"

definition Storage_ChangePassword ::
  "uuid \<Rightarrow> bytes \<Rightarrow> 'u world \<Rightarrow> error option \<times> 'u world" where
  "Storage_ChangePassword uid newPasswordHash w =
     (if \<not> pg_begin_ok w then (Some pg_ConnectionError, w)
      else case credentials w uid of
             None \<Rightarrow> (Some pgx_ErrNoRows, w)
           | Some old \<Rightarrow>
               if pg_commit_ok w
               then (None, w\<lparr>credentials := (credentials w)(uid \<mapsto> newPasswordHash)\<rparr>)
               else (None, w))"

section \<open>The auth service (services/auth)\<close>

text \<open>
  \<^verbatim>\<open>UserProvider\<close> is an interface whose implementation is not among the sources: the
  service is given one, as in \<^verbatim>\<open>auth.New\<close>. Its methods act on the state behind it.
  \<^verbatim>\<open>AuthProvider\<close> is implemented by the credential store above.
\<close>

record 'u UserProvider =
  GetUser :: "string \<Rightarrow> 'u \<Rightarrow> (error + NormalizedUser) \<times> 'u"
  CreateUser :: "string \<Rightarrow> 'u \<Rightarrow> (error + NormalizedUser) \<times> 'u"

definition call_user :: "('u \<Rightarrow> 'a \<times> 'u) \<Rightarrow> 'u world \<Rightarrow> 'a \<times> 'u world" where
  "call_user f w = (let (r, s) = f (usvc w) in (r, w\<lparr>usvc := s\<rparr>))"

text \<open>The request bodies of \<^verbatim>\<open>models\<close>.\<close>

record LoginUser =
  login_Email :: string
  login_Password :: string

record RegisterUser =
  register_Email :: string
  register_Password :: string

record NewPassword =
  change_Email :: string
  change_PreviousPassword :: string
  change_NewPassword :: string


definition Login ::
  "'u UserProvider \<Rightarrow> LoginUser \<Rightarrow> 'u world
     \<Rightarrow> (error + NormalizedUser \<times> tokstr \<times> tokstr) \<times> 'u world" where
  "Login a loginUser w =
     (case call_user (GetUser a (login_Email loginUser)) w of
        (Inl err, w1) \<Rightarrow>
          if err = storage_ErrUserNotFound then (Inl ErrInvalidCredentials, w1)
          else (Inl err, w1)
      | (Inr user, w1) \<Rightarrow>
          (case Storage_Login (UUID user) w1 of
             (Inl err, w2) \<Rightarrow>
               if err = storage_ErrUserNotFound then (Inl ErrInvalidCredentials, w2)
               else (Inl err, w2)
           | (Inr passHash, w2) \<Rightarrow>
               (case bcrypt_CompareHashAndPassword passHash (login_Password loginUser) of
                  Some err \<Rightarrow> (Inl ErrInvalidCredentials, w2)
                | None \<Rightarrow>
                    (case NewPairTokens user w2 of
                       (Inl err, w3) \<Rightarrow> (Inl err, w3)
                     | (Inr (accessToken, refreshToken), w3) \<Rightarrow>
                         (Inr (user, accessToken, refreshToken), w3)))))"

definition RegisterNewUser ::
  "'u UserProvider \<Rightarrow> RegisterUser \<Rightarrow> 'u world
     \<Rightarrow> (error + NormalizedUser \<times> tokstr \<times> tokstr) \<times> 'u world" where
  "RegisterNewUser a registerUser w =
     (case call_user (CreateUser a (register_Email registerUser)) w of
        (Inl err, w1) \<Rightarrow> (Inl ErrFailedToGetUser, w1)
      | (Inr user, w1) \<Rightarrow>
          (case bcrypt_GenerateFromPassword (register_Password registerUser) bcrypt_DefaultCost w1 of
             (Inl err, w2) \<Rightarrow> (Inl err, w2)
           | (Inr passHash, w2) \<Rightarrow>
               (case Storage_Register (UUID user) passHash w2 of
                  (Some err, w3) \<Rightarrow>
                    if err = storage_ErrUserExists then (Inl ErrUserExists, w3)
                    else (Inl err, w3)
                | (None, w3) \<Rightarrow>
                    (case NewPairTokens user w3 of
                       (Inl err, w4) \<Rightarrow> (Inl err, w4)
                     | (Inr (accessToken, refreshToken), w4) \<Rightarrow>
                         (Inr (user, accessToken, refreshToken), w4)))))"

definition ChangePassword ::
  "'u UserProvider \<Rightarrow> NewPassword \<Rightarrow> 'u world \<Rightarrow> error option \<times> 'u world" where
  "ChangePassword a newPassword w =
     (case call_user (GetUser a (change_Email newPassword)) w of
        (Inl err, w1) \<Rightarrow>
          if err = storage_ErrUserNotFound then (Some ErrUserNotFound, w1)
          else (Some err, w1)
      | (Inr user, w1) \<Rightarrow>
          (case Storage_Password (UUID user) w1 of
             (Inl err, w2) \<Rightarrow> (Some err, w2)
           | (Inr oldPasswordHash, w2) \<Rightarrow>
               (case bcrypt_CompareHashAndPassword oldPasswordHash
                       (change_PreviousPassword newPassword) of
                  Some err \<Rightarrow> (Some ErrInvalidCredentials, w2)
                | None \<Rightarrow>
                    (case bcrypt_GenerateFromPassword (change_NewPassword newPassword)
                            bcrypt_DefaultCost w2 of
                       (Inl err, w3) \<Rightarrow> (Some err, w3)
                     | (Inr passHash, w3) \<Rightarrow>
                         (case Storage_ChangePassword (UUID user) passHash w3 of
                            (Some err, w4) \<Rightarrow>
                              if err = storage_ErrUserExists then (Some ErrUserExists, w4)
                              else (Some err, w4)
                          | (None, w4) \<Rightarrow> (None, w4))))))"


section \<open>The HTTP boundary of the auth service\<close>

text \<open>
  \<^verbatim>\<open>CheckSession\<close> answers with a status that depends on the error of
  \<^verbatim>\<open>cookie.CheckCookie\<close> only; that function is not among the sources, so its error is
  the argument. The handler \<^verbatim>\<open>Register\<close> does the same with the error of
  \<^verbatim>\<open>RegisterNewUser\<close>.
\<close>

definition CheckSession :: "error option \<Rightarrow> nat" where
  "CheckSession err =
     (case err of
        Some e \<Rightarrow> if e = http_ErrNoCookie \<or> e = ErrUserUnauthorized then 401 else 500
      | None \<Rightarrow> 200)"

definition Register_handler :: "error option \<Rightarrow> nat" where
  "Register_handler err =
     (case err of
        Some e \<Rightarrow> if e = ErrUserExists then 409 else 500
      | None \<Rightarrow> 200)"

section \<open>The user service behind the identity provider\<close>

text \<open>
  The state of the user service: the rows (user id, email, username, name) of its table
  \<^verbatim>\<open>users\<close>, whether a transaction can begin, and the values \<^verbatim>\<open>uuid.New()\<close> and
  \<^verbatim>\<open>gofakeit.Username()\<close> hand out, with the number handed out so far.
\<close>

record usersvc =
  users :: "(uuid \<times> string \<times> string \<times> string) list"
  users_begin_ok :: bool
  new_uuid :: "nat \<Rightarrow> uuid"
  new_username :: "nat \<Rightarrow> string"
  made :: nat

text \<open>
  Modelled from the spec: the schema of the table \<^verbatim>\<open>users\<close> is not among the sources.
  The specification has a unique id per identity and a conflict for a second registration
  of an email; the storage of the user service reports a unique violation on the email
  and on the username when they are changed. So an \<^verbatim>\<open>INSERT\<close> fails when the id, the
  email or the username is already in the table.
\<close>

definition users_unique_violated :: "usersvc \<Rightarrow> uuid \<Rightarrow> string \<Rightarrow> string \<Rightarrow> bool" where
  "users_unique_violated s uid email username =
     list_ex (\<lambda>(u, e, n, m). u = uid \<or> e = email \<or> n = username) (users s)"

text \<open>\<^verbatim>\<open>postgres.Storage.CreateUser\<close> and \<^verbatim>\<open>GetUserByEmail\<close> of the user service.\<close>

definition userdb_CreateUser ::
  "uuid \<Rightarrow> string \<Rightarrow> string \<Rightarrow> string \<Rightarrow> usersvc \<Rightarrow> (error + NormalizedUser) \<times> usersvc" where
  "userdb_CreateUser uid email username name s =
     (if \<not> users_begin_ok s then (Inl pg_ConnectionError, s)
      else if users_unique_violated s uid email username then (Inl pg_UniqueViolation, s)
      else (Inr \<lparr>UUID = uid, Username = username, Email = email\<rparr>,
            s\<lparr>users := users s @ [(uid, email, username, name)]\<rparr>))"

definition userdb_GetUserByEmail ::
  "string \<Rightarrow> usersvc \<Rightarrow> (error + NormalizedUser) \<times> usersvc" where
  "userdb_GetUserByEmail email s =
     (if \<not> users_begin_ok s then (Inl pg_ConnectionError, s)
      else case find (\<lambda>(u, e, n, m). e = email) (users s) of
             None \<Rightarrow> (Inl usersvc_storage_ErrUserNotFound, s)
           | Some (u, e, n, m) \<Rightarrow> (Inr \<lparr>UUID = u, Username = n, Email = e\<rparr>, s))"

text \<open>\<^verbatim>\<open>UserDataService.CreateUser\<close> and \<^verbatim>\<open>GetUserByEmail\<close> (services/user).\<close>

definition UserDataService_CreateUser ::
  "string \<Rightarrow> usersvc \<Rightarrow> (error + NormalizedUser) \<times> usersvc" where
  "UserDataService_CreateUser email s =
     (let name = ''nameless'';
          username = new_username s (made s);
          uid = new_uuid s (made s);
          s1 = s\<lparr>made := Suc (made s)\<rparr>
      in case userdb_CreateUser uid email username name s1 of
           (Inl err, s2) \<Rightarrow> (Inl err, s2)
         | (Inr info, s2) \<Rightarrow> (Inr info, s2))"

definition UserDataService_GetUserByEmail ::
  "string \<Rightarrow> usersvc \<Rightarrow> (error + NormalizedUser) \<times> usersvc" where
  "UserDataService_GetUserByEmail email s =
     (case userdb_GetUserByEmail email s of
        (Inl err, s1) \<Rightarrow>
          if err = usersvc_storage_ErrUserNotFound then (Inl usersvc_ErrUserNotFound, s1)
          else (Inl err, s1)
      | (Inr info, s1) \<Rightarrow> (Inr info, s1))"

text \<open>
  The handlers \<^verbatim>\<open>CreateUser\<close> and \<^verbatim>\<open>GetUserByEmail\<close> of the user service: the status
  and the body they write. (The validation of the request body is not among the sources.)
\<close>

definition UserHandler_CreateUser ::
  "string \<Rightarrow> usersvc \<Rightarrow> (nat \<times> NormalizedUser option) \<times> usersvc" where
  "UserHandler_CreateUser email s =
     (case UserDataService_CreateUser email s of
        (Inl err, s1) \<Rightarrow> ((500, None), s1)
      | (Inr info, s1) \<Rightarrow> ((201, Some info), s1))"

definition UserHandler_GetUserByEmail ::
  "string \<Rightarrow> usersvc \<Rightarrow> (nat \<times> NormalizedUser option) \<times> usersvc" where
  "UserHandler_GetUserByEmail email s =
     (if email = [] then ((409, None), s)
      else case UserDataService_GetUserByEmail email s of
             (Inl err, s1) \<Rightarrow>
               if err = usersvc_ErrUserNotFound then ((404, None), s1) else ((500, None), s1)
           | (Inr userInfo, s1) \<Rightarrow> ((200, Some userInfo), s1))"

text \<open>
  Modelled from the spec: the auth service's implementation of \<^verbatim>\<open>UserProvider\<close> is not
  among the sources; the specification calls it an identity lookup and creation
  provider. The two definitions follow the client that the chat service has for the
  same two endpoints (\<^verbatim>\<open>provider/api/messageapi/client.go\<close>): a status other than the
  expected one is an error, 404 being the provider's \<^verbatim>\<open>ErrUserNotFound\<close> and 409 its
  \<^verbatim>\<open>ErrUserExists\<close>.
\<close>

definition Client_GetUser :: "string \<Rightarrow> usersvc \<Rightarrow> (error + NormalizedUser) \<times> usersvc" where
  "Client_GetUser email s =
     (case UserHandler_GetUserByEmail email s of
        ((status, body), s1) \<Rightarrow>
          if status \<noteq> 200 then
            (if status = 404 then (Inl storage_ErrUserNotFound, s1)
             else (Inl (http_UnexpectedStatus status), s1))
          else (case body of
                  None \<Rightarrow> (Inl (errors_New ''unexpected end of JSON input''), s1)
                | Some user \<Rightarrow> (Inr user, s1)))"

definition Client_CreateUser :: "string \<Rightarrow> usersvc \<Rightarrow> (error + NormalizedUser) \<times> usersvc" where
  "Client_CreateUser email s =
     (case UserHandler_CreateUser email s of
        ((status, body), s1) \<Rightarrow>
          if status \<noteq> 201 then
            (if status = 409 then (Inl storage_ErrUserExists, s1)
             else (Inl (http_UnexpectedStatus status), s1))
          else (case body of
                  None \<Rightarrow> (Inl (errors_New ''unexpected end of JSON input''), s1)
                | Some newUser \<Rightarrow> (Inr newUser, s1)))"

definition userapi :: "usersvc UserProvider" where
  "userapi = \<lparr>GetUser = Client_GetUser, CreateUser = Client_CreateUser\<rparr>"

section \<open>The part of the world that is not the clock\<close>

text \<open>
  \<open>with_store v w\<close> is the world \<open>w\<close> with everything but its clock taken from \<open>v\<close>:
  the state of the identity provider, the credential table, the state of the database
  connection, the random source and the notification channel.
\<close>

definition with_store :: "'u world \<Rightarrow> 'u world \<Rightarrow> 'u world" where
  "with_store v w =
     w\<lparr>usvc := usvc v, credentials := credentials v, pg_begin_ok := pg_begin_ok v,
       pg_commit_ok := pg_commit_ok v, entropy := entropy v, drawn := drawn v,
       outbox := outbox v\<rparr>"

section \<open>Sample data\<close>

text \<open>
  One identity, the user service and the world before and after its registration with
  the password \<open>password1\<close>, and a few tokens: an access token of the identity that
  expired long ago, one that is still good, a correctly signed access token without
  identity claims, and a good refresh token.
\<close>

definition alice_id :: uuid where
  "alice_id = ''123e4567-e89b-12d3-a456-426614174000''"

definition alice :: NormalizedUser where
  "alice = \<lparr>UUID = alice_id, Username = ''alice'', Email = ''a@x.com''\<rparr>"

definition svc0 :: usersvc where
  "svc0 = \<lparr>users = [], users_begin_ok = True,
            new_uuid = (\<lambda>i. if i = 0 then alice_id else ''00000000-0000-4000-8000-000000000001''),
            new_username = (\<lambda>i. if i = 0 then ''alice'' else ''bob''), made = 0\<rparr>"

definition world0 :: "usersvc world" where
  "world0 = \<lparr>usvc = svc0, credentials = Map.empty, pg_begin_ok = True, pg_commit_ok = True,
              clock = 1000, elapse = (\<lambda>i. 1), tick = 0, entropy = (\<lambda>i. 7 * i + 3),
              drawn = 0, outbox = []\<rparr>"

definition alice_hash :: bytes where
  "alice_hash = BcryptHash 10 3 (bcrypt_key ''password1'')"

definition world1 :: "usersvc world" where
  "world1 = world0
     \<lparr>usvc := svc0\<lparr>users := [(alice_id, ''a@x.com'', ''alice'', ''nameless'')], made := 1\<rparr>,
      credentials := [alice_id \<mapsto> alice_hash],
      drawn := 1\<rparr>"

definition alice_claims :: "int \<Rightarrow> MapClaims" where
  "alice_claims e =
     [''uuid'' \<mapsto> JString alice_id, ''username'' \<mapsto> JString ''alice'',
      ''email'' \<mapsto> JString ''a@x.com'', ''exp'' \<mapsto> JNumber e]"

definition expired_access :: tokstr where
  "expired_access = Compact HS256 (alice_claims 10) (Some ''somesecret'')"

definition good_access :: tokstr where
  "good_access = Compact HS256 (alice_claims 5000) (Some ''somesecret'')"

definition anonymous_access :: tokstr where
  "anonymous_access = Compact HS256 [''exp'' \<mapsto> JNumber 5000] (Some ''somesecret'')"

definition good_refresh :: tokstr where
  "good_refresh = Compact HS256 [''exp'' \<mapsto> JNumber 2000000] (Some ''secret'')"

text \<open>
  An access token of the identity whose signature segment does not decode; the refresh
  token that a login at second 1000 mints; and the world in which every reading of the
  clock falls into that second.
\<close>

definition unsigned_access :: tokstr where
  "unsigned_access = NoSignature HS256 (alice_claims 5000)"

definition fresh_refresh :: tokstr where
  "fresh_refresh = Compact HS256 [''exp'' \<mapsto> JNumber 2593000] (Some ''secret'')"

definition same_second :: "usersvc world" where
  "same_second = world1\<lparr>elapse := (\<lambda>i. 0)\<rparr>"

text \<open>The world after the registration of the identity in \<open>world0\<close>: two readings of the clock later.\<close>

definition registered :: "usersvc world" where
  "registered = world1\<lparr>clock := 1002, tick := 2\<rparr>"

section \<open>What the clock and the token issuer do\<close>

lemma time_Now_frame:
  "usvc (snd (time_Now w)) = usvc w" "credentials (snd (time_Now w)) = credentials w"
  "outbox (snd (time_Now w)) = outbox w" "pg_begin_ok (snd (time_Now w)) = pg_begin_ok w"
  "pg_commit_ok (snd (time_Now w)) = pg_commit_ok w" "entropy (snd (time_Now w)) = entropy w"
  "drawn (snd (time_Now w)) = drawn w" "elapse (snd (time_Now w)) = elapse w"
  by (simp_all add: time_Now_def Let_def)

lemma time_Now_clock:
  "clock (snd (time_Now w)) = fst (time_Now w)" "clock w \<le> fst (time_Now w)"
  by (simp_all add: time_Now_def Let_def)

text \<open>Signing with an HMAC method cannot fail, so the issuer always returns a pair.\<close>

lemma NewPairTokens_eq:
  "NewPairTokens user w =
     (Inr (Compact HS256
             [''uuid'' \<mapsto> JString (uuid_String (UUID user)),
              ''username'' \<mapsto> JString (Username user),
              ''email'' \<mapsto> JString (Email user),
              ''exp'' \<mapsto> JNumber (fst (time_Now w) + accessDuration)]
             (Some ''somesecret''),
           Compact HS256
             [''exp'' \<mapsto> JNumber (fst (time_Now (snd (time_Now w))) + refreshDuration)]
             (Some ''secret'')),
      snd (time_Now (snd (time_Now w))))"
  by (simp add: NewPairTokens_def jwt_New_def jwt_SignedString_def Let_def split: prod.splits)

section \<open>Verification reads and moves the clock only\<close>

lemma with_store_self: "with_store w w = w"
  by (simp add: with_store_def)

lemma with_store_fields:
  "usvc (with_store v w) = usvc v" "credentials (with_store v w) = credentials v"
  "outbox (with_store v w) = outbox v"
  by (simp_all add: with_store_def)

lemma time_Now_with_store:
  "time_Now (with_store v w) = (fst (time_Now w), with_store v (snd (time_Now w)))"
  by (simp add: time_Now_def with_store_def Let_def)

lemma jwt_ParseWithClaims_with_store:
  "jwt_ParseWithClaims ts kf (with_store v w) =
     (fst (jwt_ParseWithClaims ts kf w), with_store v (snd (jwt_ParseWithClaims ts kf w)))"
  by (simp add: jwt_ParseWithClaims_def time_Now_with_store Let_def
           split: tokstr.splits sum.splits prod.splits)

lemma jwt_Parse_with_store:
  "jwt_Parse ts kf (with_store v w) =
     (fst (jwt_Parse ts kf w), with_store v (snd (jwt_Parse ts kf w)))"
  by (simp add: jwt_Parse_def jwt_ParseWithClaims_with_store Let_def split: prod.splits)

lemma NewPairTokens_with_store:
  "NewPairTokens user (with_store v w) =
     (fst (NewPairTokens user w), with_store v (snd (NewPairTokens user w)))"
  by (simp add: NewPairTokens_eq time_Now_with_store)

lemma VerifyRefreshToken_with_store:
  "VerifyRefreshToken user rt (with_store v w) =
     (fst (VerifyRefreshToken user rt w), with_store v (snd (VerifyRefreshToken user rt w)))"
  by (simp add: VerifyRefreshToken_def jwt_Parse_with_store NewPairTokens_with_store Let_def
           split: prod.splits option.splits sum.splits)

lemma VerifyAccessToken_with_store:
  "VerifyAccessToken a r (with_store v w) =
     (fst (VerifyAccessToken a r w), with_store v (snd (VerifyAccessToken a r w)))"
  by (simp add: VerifyAccessToken_def jwt_ParseWithClaims_with_store
        VerifyRefreshToken_with_store Let_def
           split: prod.splits option.splits sum.splits)

lemma jwt_ParseWithClaims_frame:
  "snd (jwt_ParseWithClaims ts kf w) = with_store w (snd (jwt_ParseWithClaims ts kf w))"
proof -
  have "snd (jwt_ParseWithClaims ts kf (with_store w w))
          = with_store w (snd (jwt_ParseWithClaims ts kf w))"
    by (simp add: jwt_ParseWithClaims_with_store)
  then show ?thesis unfolding with_store_self .
qed

lemma jwt_ParseWithClaims_clock:
  "clock w \<le> clock (snd (jwt_ParseWithClaims ts kf w))"
  by (simp add: jwt_ParseWithClaims_def time_Now_def Let_def case_prod_unfold
           split: tokstr.splits sum.splits)

lemma jwt_Parse_clock: "clock w \<le> clock (snd (jwt_Parse ts kf w))"
  using jwt_ParseWithClaims_clock [of w ts kf]
  by (simp add: jwt_Parse_def Let_def case_prod_unfold)

lemma access_parse_accepts:
  assumes "m \<noteq> NonHMAC" and "jwt_Validate c (fst (time_Now w))"
  shows "jwt_ParseWithClaims (Compact m c (Some ''somesecret'')) access_keyFunc w =
           ((c, Some \<lparr>Method = m, Claims = c, Valid = True\<rparr>, None), snd (time_Now w))"
  using assms
  by (simp add: jwt_ParseWithClaims_def access_keyFunc_def jwt_Verify_def Let_def
        case_prod_unfold)

lemma NewPairTokens_access_not_presented:
  assumes p: "jwt_ParseWithClaims accessToken access_keyFunc w = ((claims, accesstoken, err), w1)"
    and inv: "err \<noteq> None \<or> token_invalid accesstoken"
    and le: "clock w1 \<le> clock w2"
    and rep: "time_representable (fst (time_Now w2) + accessDuration)"
  shows "fst (projr (fst (NewPairTokens user w2))) \<noteq> accessToken"
proof
  let ?e = "fst (time_Now w2) + accessDuration"
  let ?c = "[''uuid'' \<mapsto> JString (uuid_String (UUID user)),
             ''username'' \<mapsto> JString (Username user),
             ''email'' \<mapsto> JString (Email user),
             ''exp'' \<mapsto> JNumber ?e]"
  assume "fst (projr (fst (NewPairTokens user w2))) = accessToken"
  then have a: "accessToken = Compact HS256 ?c (Some ''somesecret'')"
    by (simp add: NewPairTokens_eq)
  have k: "access_keyFunc \<lparr>Method = HS256, Claims = ?c, Valid = False\<rparr> = Inr ''somesecret''"
    by (simp add: access_keyFunc_def)
  have w1: "w1 = snd (time_Now w)"
    using p unfolding a
    by (simp add: jwt_ParseWithClaims_def k jwt_Verify_def Let_def case_prod_unfold
          split: if_splits)
  have "fst (time_Now w) = clock w1"
    by (simp add: w1 time_Now_clock)
  also have "\<dots> \<le> fst (time_Now w2)"
    using le time_Now_clock(2) [of w2] by simp
  finally have lt: "fst (time_Now w) < ?e"
    by (simp add: accessDuration_def)
  have "parseNumericDate ?c ''exp'' = (if ?e = 0 then Absent else Instant ?e)"
    using rep by (simp add: parseNumericDate_def)
  moreover have "parseNumericDate ?c ''nbf'' = Absent"
    by (simp add: parseNumericDate_def)
  ultimately have "jwt_Validate ?c (fst (time_Now w))"
    using lt by (simp add: jwt_Validate_def)
  then have "jwt_ParseWithClaims accessToken access_keyFunc w =
           ((?c, Some \<lparr>Method = HS256, Claims = ?c, Valid = True\<rparr>, None), snd (time_Now w))"
    unfolding a by (intro access_parse_accepts) simp_all
  with p inv show False by (auto simp add: token_invalid_def)
qed

section \<open>The sample tokens\<close>

lemma extract_alice: "extractUserFromClaims (alice_claims e) = Inr alice"
  by (simp add: extractUserFromClaims_def alice_claims_def alice_def alice_id_def
        uuid_Parse_def parse_dashed_def xdigit_def lower_hex_def)

lemma parse_expired_access:
  "jwt_ParseWithClaims expired_access access_keyFunc world1
      = ((alice_claims 10, Some \<lparr>Method = HS256, Claims = alice_claims 10, Valid = False\<rparr>,
          Some jwt_ErrTokenInvalidClaims), snd (time_Now world1))"
  by (simp add: jwt_ParseWithClaims_def access_keyFunc_def jwt_Verify_def jwt_Validate_def parseNumericDate_def time_representable_def unixToInternal_def
        expired_access_def alice_claims_def time_Now_def world1_def world0_def Let_def)

lemma parse_unsigned_access:
  "jwt_ParseWithClaims unsigned_access access_keyFunc world1
      = ((alice_claims 5000,
          Some \<lparr>Method = HS256, Claims = alice_claims 5000, Valid = False\<rparr>,
          Some jwt_ErrTokenMalformed), world1)"
  by (simp add: jwt_ParseWithClaims_def unsigned_access_def)

lemma expired_access_same_second:
  "VerifyAccessToken expired_access refreshToken same_second
     = VerifyRefreshToken alice refreshToken (snd (time_Now same_second))"
proof -
  have "jwt_ParseWithClaims expired_access access_keyFunc same_second
      = ((alice_claims 10, Some \<lparr>Method = HS256, Claims = alice_claims 10, Valid = False\<rparr>,
          Some jwt_ErrTokenInvalidClaims), snd (time_Now same_second))"
    by (simp add: jwt_ParseWithClaims_def access_keyFunc_def jwt_Verify_def jwt_Validate_def
          parseNumericDate_def time_representable_def unixToInternal_def
          expired_access_def alice_claims_def time_Now_def same_second_def world1_def
          world0_def Let_def)
  then show ?thesis
    by (simp add: VerifyAccessToken_def extract_alice)
qed

lemma expired_access_goes_to_refresh:
  "VerifyAccessToken expired_access refreshToken world1
     = VerifyRefreshToken alice refreshToken (snd (time_Now world1))"
  by (simp add: VerifyAccessToken_def parse_expired_access extract_alice)

section \<open>What the password generator returns\<close>
















section \<open>What the providers and the credential store leave alone\<close>

lemma call_user_frame:
  "credentials (snd (call_user f w)) = credentials w"
  "outbox (snd (call_user f w)) = outbox w"
  "pg_begin_ok (snd (call_user f w)) = pg_begin_ok w"
  "pg_commit_ok (snd (call_user f w)) = pg_commit_ok w"
  by (simp_all add: call_user_def case_prod_unfold Let_def)

lemma Storage_Password_frame: "snd (Storage_Password uid w) = w"
  by (simp add: Storage_Password_def split: option.splits)

lemma Storage_Login_frame: "snd (Storage_Login uid w) = w"
  by (simp add: Storage_Login_def split: option.splits)

lemma GetUser_alice:
  "call_user (GetUser userapi ''a@x.com'') world1 = (Inr alice, world1)"
  by (simp add: call_user_def userapi_def Client_GetUser_def UserHandler_GetUserByEmail_def
        UserDataService_GetUserByEmail_def userdb_GetUserByEmail_def world1_def world0_def
        svc0_def alice_def)

lemma GetUser_nouser:
  "call_user (GetUser userapi ''nouser@x.com'') world1 = (Inl storage_ErrUserNotFound, world1)"
  by (simp add: call_user_def userapi_def Client_GetUser_def UserHandler_GetUserByEmail_def
        UserDataService_GetUserByEmail_def userdb_GetUserByEmail_def world1_def world0_def
        svc0_def)

lemma credentials_world1: "credentials world1 alice_id = Some alice_hash"
  "pg_begin_ok world1" "pg_commit_ok world1" "UUID alice = alice_id" "outbox world1 = []"
  by (simp_all add: world1_def world0_def alice_def)

lemma bcrypt_key_first: "bcrypt_key password ! 0 = (password @ [CHR 0x00]) ! 0"
  by (simp add: bcrypt_key_def)

lemma wrongpw_mismatch: "bcrypt_CompareHashAndPassword alice_hash ''wrongpw'' \<noteq> None"
proof -
  have "bcrypt_key ''wrongpw'' ! 0 \<noteq> bcrypt_key ''password1'' ! 0"
    unfolding bcrypt_key_first by simp
  then have "bcrypt_key ''wrongpw'' \<noteq> bcrypt_key ''password1''"
    by auto
  then show ?thesis
    by (simp add: bcrypt_CompareHashAndPassword_def alice_hash_def)
qed

lemma Storage_Register_errors:
  "fst (Storage_Register uid passHash w) \<noteq> Some storage_ErrUserExists"
  by (simp add: Storage_Register_def)

lemma RegisterNewUser_never_ErrUserExists:
  "fst (RegisterNewUser a registerUser w) \<noteq> Inl ErrUserExists"
  using Storage_Register_errors
  by (auto simp add: RegisterNewUser_def NewPairTokens_eq bcrypt_GenerateFromPassword_def
        Storage_Register_def case_prod_unfold Let_def
      split: prod.splits sum.splits option.splits if_splits)

lemma first_registration:
  "RegisterNewUser userapi \<lparr>register_Email = ''a@x.com'', register_Password = ''password1''\<rparr>
      world0
    = (Inr (alice, Compact HS256 (alice_claims 1901) (Some ''somesecret''),
                   Compact HS256 [''exp'' \<mapsto> JNumber 2593002] (Some ''secret'')),
       registered)"
  by (simp add: RegisterNewUser_def call_user_def userapi_def Client_CreateUser_def
        UserHandler_CreateUser_def UserDataService_CreateUser_def userdb_CreateUser_def
        users_unique_violated_def bcrypt_GenerateFromPassword_def bcrypt_DefaultCost_def
        rand_Next_def Storage_Register_def credentials_key_taken_def NewPairTokens_eq
        time_Now_def accessDuration_def refreshDuration_def uuid_String_def
        registered_def world1_def world0_def svc0_def alice_def alice_claims_def alice_hash_def
        Let_def)



text \<open>
  Whenever the access token is rejected with an identity in its claims and the parse of
  the refresh token fails, the result is the error of that parse: an error of the token
  library, never the unauthorized error of the package.
\<close>

lemma jwt_Parse_error_kinds:
  assumes "jwt_Parse tokenString keyFunc w = ((t, Some e), w')"
  shows "e \<in> {jwt_ErrTokenMalformed, jwt_ErrTokenUnverifiable, jwt_ErrTokenSignatureInvalid,
              jwt_ErrTokenInvalidClaims}"
  using assms
  by (auto simp add: jwt_Parse_def jwt_ParseWithClaims_def Let_def case_prod_unfold
        split: tokstr.splits sum.splits if_splits)

lemma VerifyAccessToken_bad_refresh:
  assumes "jwt_ParseWithClaims accessToken access_keyFunc w = ((claims, accesstoken, err), w1)"
    and "err \<noteq> None \<or> token_invalid accesstoken"
    and "extractUserFromClaims claims = Inr user"
    and "jwt_Parse refreshToken refresh_keyFunc w1 = ((t, Some e), w2)"
  shows "VerifyAccessToken accessToken refreshToken w = (Inl e, w2)"
    and "e \<noteq> ErrUserUnauthorized"
proof -
  have "VerifyRefreshToken user refreshToken w1 = (Inl e, w2)"
    using assms(4) by (simp add: VerifyRefreshToken_def)
  then show "VerifyAccessToken accessToken refreshToken w = (Inl e, w2)"
    using assms(1,2,3) by (auto simp add: VerifyAccessToken_def)
  show "e \<noteq> ErrUserUnauthorized"
    using jwt_Parse_error_kinds [OF assms(4)] by auto
qed

section \<open>Token verification\<close>

text \<open>
  Claim C1, as amended. When the access token fails parsing, signature verification or
  the check of its time claims but its unverified claims yield a complete identity, and
  the refresh token parses as valid against the refresh secret, \<^verbatim>\<open>VerifyAccessToken\<close>
  calls \<^verbatim>\<open>NewPairTokens\<close> for that identity and returns the identity with the pair it
  mints. The access token of that pair is not the presented one, so the pair differs from
  the presented pair. (The expiry of the new access token is taken to be a time that
  \<^verbatim>\<open>time.Time\<close> holds, as every reading of a clock plus 15 minutes is.)
\<close>

theorem C1_rotation_on_refresh:
  assumes "jwt_ParseWithClaims accessToken access_keyFunc w = ((claims, accesstoken, err), w1)"
    and "err \<noteq> None \<or> token_invalid accesstoken"
    and "extractUserFromClaims claims = Inr user"
    and "jwt_Parse refreshToken refresh_keyFunc w1 = ((Some t, None), w2)"
    and "Valid t"
    and "time_representable (fst (time_Now w2) + accessDuration)"
  shows "\<exists>newAccess newRefresh w3.
           NewPairTokens user w2 = (Inr (newAccess, newRefresh), w3)
         \<and> VerifyAccessToken accessToken refreshToken w
             = (Inr (newAccess, newRefresh, user), w3)
         \<and> newAccess \<noteq> accessToken
         \<and> (newAccess, newRefresh) \<noteq> (accessToken, refreshToken)"
proof -
  obtain newAccess newRefresh w3 where
    n: "NewPairTokens user w2 = (Inr (newAccess, newRefresh), w3)"
    by (simp add: NewPairTokens_eq)
  have "clock w1 \<le> clock w2"
    using jwt_Parse_clock [of w1 refreshToken refresh_keyFunc] assms(4) by simp
  then have "fst (projr (fst (NewPairTokens user w2))) \<noteq> accessToken"
    using assms(6) by (rule NewPairTokens_access_not_presented [OF assms(1) assms(2)])
  then have d: "newAccess \<noteq> accessToken"
    by (simp add: n)
  have "VerifyRefreshToken user refreshToken w1 = (Inr (newAccess, newRefresh, user), w3)"
    using assms(4,5) n by (simp add: VerifyRefreshToken_def)
  then have "VerifyAccessToken accessToken refreshToken w
               = (Inr (newAccess, newRefresh, user), w3)"
    using assms(1,2,3) by (auto simp add: VerifyAccessToken_def)
  with n d show ?thesis by auto
qed

text \<open>
  The claim as stated fails in two ways. Text that is no token leaves the claim set
  empty: no identity can be taken from it, and the result is the unauthorized error
  although the refresh token is valid. And the pair is not entirely new: when the
  rotation happens in the second in which the presented refresh token was minted, the
  refresh token it returns is the presented one.
\<close>

theorem C1_counterexample:
  "fst (jwt_ParseWithClaims (Text ''garbage'') access_keyFunc world1)
      = (Map.empty, None, Some jwt_ErrTokenMalformed)
   \<and> fst (jwt_Parse good_refresh refresh_keyFunc world1)
      = (Some \<lparr>Method = HS256, Claims = [''exp'' \<mapsto> JNumber 2000000], Valid = True\<rparr>, None)
   \<and> fst (VerifyAccessToken (Text ''garbage'') good_refresh world1) = Inl ErrUserUnauthorized
   \<and> fst (VerifyAccessToken expired_access fresh_refresh same_second)
      = Inr (Compact HS256 (alice_claims 1900) (Some ''somesecret''), fresh_refresh, alice)"
proof -
  have "fst (VerifyAccessToken expired_access fresh_refresh same_second)
      = Inr (Compact HS256 (alice_claims 1900) (Some ''somesecret''), fresh_refresh, alice)"
    unfolding expired_access_same_second
    by (simp add: VerifyRefreshToken_def jwt_Parse_def jwt_ParseWithClaims_def
          refresh_keyFunc_def jwt_Verify_def jwt_Validate_def parseNumericDate_def
          time_representable_def unixToInternal_def NewPairTokens_eq fresh_refresh_def
          alice_def alice_claims_def uuid_String_def accessDuration_def refreshDuration_def
          time_Now_def same_second_def world1_def world0_def Let_def)
  then show ?thesis
    by (simp add: VerifyAccessToken_def jwt_Parse_def jwt_ParseWithClaims_def
          refresh_keyFunc_def jwt_Verify_def jwt_Validate_def parseNumericDate_def
          time_representable_def unixToInternal_def time_Now_def extractUserFromClaims_def
          good_refresh_def world1_def world0_def Let_def)
qed

theorem C1_witness:
  "fst (VerifyAccessToken expired_access good_refresh world1)
     = Inr (Compact HS256 (alice_claims 1903) (Some ''somesecret''),
            Compact HS256 [''exp'' \<mapsto> JNumber 2593004] (Some ''secret''), alice)
   \<and> Compact HS256 (alice_claims 1903) (Some ''somesecret'') \<noteq> expired_access
   \<and> fst (VerifyAccessToken unsigned_access good_refresh world1)
     = Inr (Compact HS256 (alice_claims 1902) (Some ''somesecret''),
            Compact HS256 [''exp'' \<mapsto> JNumber 2593003] (Some ''secret''), alice)
   \<and> Compact HS256 (alice_claims 1902) (Some ''somesecret'') \<noteq> unsigned_access"
proof -
  let ?w1 = "snd (time_Now world1)"
  let ?w2 = "snd (time_Now ?w1)"
  let ?good = "\<lparr>Method = HS256, Claims = [''exp'' \<mapsto> JNumber 2000000], Valid = True\<rparr>"
  have r: "jwt_Parse good_refresh refresh_keyFunc ?w1 = ((Some ?good, None), ?w2)"
    by (simp add: jwt_Parse_def jwt_ParseWithClaims_def refresh_keyFunc_def jwt_Verify_def
        jwt_Validate_def parseNumericDate_def time_representable_def unixToInternal_def
        good_refresh_def time_Now_def world1_def world0_def Let_def)
  have n: "fst (NewPairTokens alice ?w2)
      = Inr (Compact HS256 (alice_claims 1903) (Some ''somesecret''),
            Compact HS256 [''exp'' \<mapsto> JNumber 2593004] (Some ''secret''))"
    by (simp add: NewPairTokens_eq alice_def alice_claims_def uuid_String_def time_Now_def
          world1_def world0_def Let_def accessDuration_def refreshDuration_def)
  have i: "Some jwt_ErrTokenInvalidClaims \<noteq> None
             \<or> token_invalid (Some \<lparr>Method = HS256, Claims = alice_claims 10, Valid = False\<rparr>)"
    by simp
  have t: "time_representable (fst (time_Now ?w2) + accessDuration)"
    by (simp add: time_representable_def unixToInternal_def accessDuration_def time_Now_def
          world1_def world0_def Let_def)
  have v: "Valid ?good" by simp
  have first: "fst (VerifyAccessToken expired_access good_refresh world1)
     = Inr (Compact HS256 (alice_claims 1903) (Some ''somesecret''),
            Compact HS256 [''exp'' \<mapsto> JNumber 2593004] (Some ''secret''), alice)
   \<and> Compact HS256 (alice_claims 1903) (Some ''somesecret'') \<noteq> expired_access"
    using C1_rotation_on_refresh [OF parse_expired_access i extract_alice r v t] n
    by auto
  have r': "jwt_Parse good_refresh refresh_keyFunc world1 = ((Some ?good, None), ?w1)"
    by (simp add: jwt_Parse_def jwt_ParseWithClaims_def refresh_keyFunc_def jwt_Verify_def
        jwt_Validate_def parseNumericDate_def time_representable_def unixToInternal_def
        good_refresh_def time_Now_def world1_def world0_def Let_def)
  have n': "fst (NewPairTokens alice ?w1)
      = Inr (Compact HS256 (alice_claims 1902) (Some ''somesecret''),
            Compact HS256 [''exp'' \<mapsto> JNumber 2593003] (Some ''secret''))"
    by (simp add: NewPairTokens_eq alice_def alice_claims_def uuid_String_def time_Now_def
          world1_def world0_def Let_def accessDuration_def refreshDuration_def)
  have i': "Some jwt_ErrTokenMalformed \<noteq> None
             \<or> token_invalid (Some \<lparr>Method = HS256, Claims = alice_claims 5000, Valid = False\<rparr>)"
    by simp
  have t': "time_representable (fst (time_Now ?w1) + accessDuration)"
    by (simp add: time_representable_def unixToInternal_def accessDuration_def time_Now_def
          world1_def world0_def Let_def)
  have "fst (VerifyAccessToken unsigned_access good_refresh world1)
     = Inr (Compact HS256 (alice_claims 1902) (Some ''somesecret''),
            Compact HS256 [''exp'' \<mapsto> JNumber 2593003] (Some ''secret''), alice)
   \<and> Compact HS256 (alice_claims 1902) (Some ''somesecret'') \<noteq> unsigned_access"
    using C1_rotation_on_refresh [OF parse_unsigned_access i' extract_alice r' v t'] n'
    by auto
  with first show ?thesis by simp
qed

text \<open>
  Claim C2, at the failing input. An expired access token of an identity together with
  a refresh token that is no token, or that has expired, does not give the dedicated
  unauthorized error: \<^verbatim>\<open>VerifyRefreshToken\<close> returns the error of the parse before it
  tests \<^verbatim>\<open>Valid\<close>, and \<^verbatim>\<open>CheckSession\<close> answers such an error with status 500.
\<close>

theorem C2_raw_error_for_bad_refresh:
  "fst (VerifyAccessToken expired_access (Text ''garbage'') world1) = Inl jwt_ErrTokenMalformed
   \<and> CheckSession (Some jwt_ErrTokenMalformed) = 500
   \<and> fst (VerifyAccessToken expired_access
             (Compact HS256 [''exp'' \<mapsto> JNumber 10] (Some ''secret'')) world1)
       = Inl jwt_ErrTokenInvalidClaims
   \<and> CheckSession (Some jwt_ErrTokenInvalidClaims) = 500"
  unfolding expired_access_goes_to_refresh
  by (simp add: VerifyRefreshToken_def
        jwt_Parse_def jwt_ParseWithClaims_def refresh_keyFunc_def jwt_Verify_def jwt_Validate_def parseNumericDate_def time_representable_def unixToInternal_def
        time_Now_def world1_def world0_def Let_def CheckSession_def)

theorem C2_witness:
  "fst (VerifyAccessToken expired_access (Text ''garbage'') world1) \<noteq> Inl ErrUserUnauthorized
   \<and> CheckSession (Some jwt_ErrTokenMalformed) \<noteq> 401"
  using C2_raw_error_for_bad_refresh by simp

text \<open>
  Claim C3, as amended. When the access token parses as valid against the access secret
  and its claims carry a complete identity, \<^verbatim>\<open>VerifyAccessToken\<close> returns that identity
  with two empty token strings, and the state of the identity provider, the credential
  table and the notification channel are as before.
\<close>

theorem C3_valid_access_token:
  assumes "jwt_ParseWithClaims accessToken access_keyFunc w = ((claims, Some t, None), w1)"
    and "Valid t"
    and "extractUserFromClaims claims = Inr user"
  shows "VerifyAccessToken accessToken refreshToken w = (Inr (Text [], Text [], user), w1)
       \<and> usvc w1 = usvc w \<and> credentials w1 = credentials w \<and> outbox w1 = outbox w"
proof -
  have "w1 = with_store w w1"
    using jwt_ParseWithClaims_frame [of accessToken access_keyFunc w] assms(1) by simp
  then have "usvc w1 = usvc w" "credentials w1 = credentials w" "outbox w1 = outbox w"
    by (metis with_store_fields)+
  moreover have "VerifyAccessToken accessToken refreshToken w = (Inr (Text [], Text [], user), w1)"
    using assms by (simp add: VerifyAccessToken_def token_invalid_def)
  ultimately show ?thesis by simp
qed

text \<open>
  The claim as stated fails for a token that is correctly signed and unexpired but
  carries no identity: the result is the error of \<^verbatim>\<open>extractUserFromClaims\<close>.
\<close>

theorem C3_counterexample:
  "fst (jwt_ParseWithClaims anonymous_access access_keyFunc world1)
      = ([''exp'' \<mapsto> JNumber 5000],
         Some \<lparr>Method = HS256, Claims = [''exp'' \<mapsto> JNumber 5000], Valid = True\<rparr>, None)
   \<and> fst (VerifyAccessToken anonymous_access good_refresh world1)
      = Inl (errors_New ''missing or invalid uuid in token claims'')"
  by (simp add: VerifyAccessToken_def jwt_ParseWithClaims_def access_keyFunc_def jwt_Verify_def
        jwt_Validate_def parseNumericDate_def time_representable_def unixToInternal_def time_Now_def extractUserFromClaims_def token_invalid_def
        anonymous_access_def world1_def world0_def Let_def)

theorem C3_witness:
  "VerifyAccessToken good_access good_refresh world1
      = (Inr (Text [], Text [], alice), snd (time_Now world1))
   \<and> credentials (snd (time_Now world1)) = credentials world1"
proof -
  have v: "jwt_Validate (alice_claims 5000) (fst (time_Now world1))"
    by (simp add: jwt_Validate_def parseNumericDate_def time_representable_def unixToInternal_def alice_claims_def time_Now_def world1_def world0_def Let_def)
  have p: "jwt_ParseWithClaims good_access access_keyFunc world1
      = ((alice_claims 5000, Some \<lparr>Method = HS256, Claims = alice_claims 5000, Valid = True\<rparr>, None),
         snd (time_Now world1))"
    unfolding good_access_def by (rule access_parse_accepts) (simp_all add: v)
  have e: "extractUserFromClaims (alice_claims 5000) = Inr alice"
    by (simp add: extractUserFromClaims_def alice_claims_def alice_def alice_id_def
          uuid_Parse_def parse_dashed_def xdigit_def lower_hex_def)
  show ?thesis
    using C3_valid_access_token [OF p _ e, of good_refresh] by simp
qed

text \<open>
  Claim C4. For every identity, \<^verbatim>\<open>NewPairTokens\<close> returns an access token whose claims
  are exactly the identity's id, username and email and an expiry 15 minutes after the
  time read for it, and a refresh token whose only claim is an expiry 30 days after the
  time read for it; both are signed with HMAC-SHA-256, the access token under
  \<open>somesecret\<close> and the refresh token under the different secret \<open>secret\<close>.
\<close>

theorem C4_NewPairTokens_claims:
  "\<exists>accessClaims refreshClaims w'.
     NewPairTokens user w =
       (Inr (Compact HS256 accessClaims (Some ''somesecret''),
             Compact HS256 refreshClaims (Some ''secret'')), w')
     \<and> dom accessClaims = {''uuid'', ''username'', ''email'', ''exp''}
     \<and> accessClaims ''uuid'' = Some (JString (uuid_String (UUID user)))
     \<and> accessClaims ''username'' = Some (JString (Username user))
     \<and> accessClaims ''email'' = Some (JString (Email user))
     \<and> accessClaims ''exp'' = Some (JNumber (fst (time_Now w) + 15 * 60))
     \<and> dom refreshClaims = {''exp''}
     \<and> refreshClaims ''exp'' =
           Some (JNumber (fst (time_Now (snd (time_Now w))) + 30 * 24 * 60 * 60))
     \<and> ''somesecret'' \<noteq> ''secret''"
  unfolding NewPairTokens_eq accessDuration_def refreshDuration_def
  by (intro exI conjI, rule refl) auto

section \<open>The password operations\<close>

text \<open>
  Claim C5. \<^verbatim>\<open>Login\<close> returns \<^verbatim>\<open>ErrInvalidCredentials\<close> both when the identity provider
  answers that no user has the email and when the user exists, the stored hash is read
  and the presented password does not verify against it.
\<close>

theorem C5_Login_same_error:
  "(call_user (GetUser a (login_Email loginUser)) w = (Inl storage_ErrUserNotFound, w1)
      \<longrightarrow> Login a loginUser w = (Inl ErrInvalidCredentials, w1))
   \<and> (call_user (GetUser a (login_Email loginUser)) w = (Inr user, w1)
        \<and> Storage_Login (UUID user) w1 = (Inr passHash, w2)
        \<and> bcrypt_CompareHashAndPassword passHash (login_Password loginUser) \<noteq> None
      \<longrightarrow> Login a loginUser w = (Inl ErrInvalidCredentials, w2))"
  by (auto simp add: Login_def)

theorem C5_witness:
  "Login userapi \<lparr>login_Email = ''nouser@x.com'', login_Password = ''anything''\<rparr> world1
     = (Inl ErrInvalidCredentials, world1)
   \<and> Login userapi \<lparr>login_Email = ''a@x.com'', login_Password = ''wrongpw''\<rparr> world1
     = (Inl ErrInvalidCredentials, world1)"
proof -
  have l: "Storage_Login (UUID alice) world1 = (Inr alice_hash, world1)"
    by (simp add: Storage_Login_def credentials_world1)
  note c = wrongpw_mismatch
  show ?thesis
    using C5_Login_same_error
            [of userapi "\<lparr>login_Email = ''nouser@x.com'', login_Password = ''anything''\<rparr>"
                world1 world1 alice alice_hash world1]
          C5_Login_same_error
            [of userapi "\<lparr>login_Email = ''a@x.com'', login_Password = ''wrongpw''\<rparr>"
                world1 world1 alice alice_hash world1]
          GetUser_alice GetUser_nouser l c
    by simp
qed

text \<open>
  Claim C6. When the old password of a \<^verbatim>\<open>ChangePassword\<close> call does not verify against
  the stored hash, the call returns \<^verbatim>\<open>ErrInvalidCredentials\<close> and the credential table is
  what it was before the call.
\<close>

theorem C6_ChangePassword_keeps_hash:
  assumes "call_user (GetUser a (change_Email newPassword)) w = (Inr user, w1)"
    and "Storage_Password (UUID user) w1 = (Inr oldPasswordHash, w2)"
    and "bcrypt_CompareHashAndPassword oldPasswordHash (change_PreviousPassword newPassword)
           \<noteq> None"
  shows "fst (ChangePassword a newPassword w) = Some ErrInvalidCredentials
       \<and> credentials (snd (ChangePassword a newPassword w)) = credentials w"
proof -
  have "w2 = w1"
    using Storage_Password_frame [of "UUID user" w1] assms(2) by simp
  moreover have "credentials w1 = credentials w"
    using call_user_frame(1) [of "GetUser a (change_Email newPassword)" w] assms(1) by simp
  moreover have "ChangePassword a newPassword w = (Some ErrInvalidCredentials, w2)"
    using assms by (auto simp add: ChangePassword_def)
  ultimately show ?thesis by simp
qed

theorem C6_witness:
  "fst (ChangePassword userapi
          \<lparr>change_Email = ''a@x.com'', change_PreviousPassword = ''wrongpw'',
           change_NewPassword = ''newpass1''\<rparr> world1) = Some ErrInvalidCredentials
   \<and> credentials (snd (ChangePassword userapi
          \<lparr>change_Email = ''a@x.com'', change_PreviousPassword = ''wrongpw'',
           change_NewPassword = ''newpass1''\<rparr> world1)) alice_id
       = Some alice_hash"
proof -
  have p: "Storage_Password (UUID alice) world1 = (Inr alice_hash, world1)"
    by (simp add: Storage_Password_def credentials_world1)
  note c = wrongpw_mismatch
  show ?thesis
    using C6_ChangePassword_keeps_hash
            [of userapi "\<lparr>change_Email = ''a@x.com'', change_PreviousPassword = ''wrongpw'',
                 change_NewPassword = ''newpass1''\<rparr>" world1 alice world1
                alice_hash world1]
          GetUser_alice p c credentials_world1(1)
    by simp
qed




text \<open>
  Claim C8, at the failing input. Registering the same email a second time returns
  \<^verbatim>\<open>ErrFailedToGetUser\<close>, which the handler answers with status 500, not
  \<^verbatim>\<open>ErrUserExists\<close>: every error of \<^verbatim>\<open>CreateUser\<close> becomes \<^verbatim>\<open>ErrFailedToGetUser\<close>, and
  the credential store never returns the sentinel the service tests for. The rows of the
  first registration stay as they are.
\<close>

theorem C8_second_registration_error:
  "RegisterNewUser userapi
       \<lparr>register_Email = ''a@x.com'', register_Password = ''password1''\<rparr> world0
     = (Inr (alice, Compact HS256 (alice_claims 1901) (Some ''somesecret''),
                    Compact HS256 [''exp'' \<mapsto> JNumber 2593002] (Some ''secret'')),
        registered)
   \<and> fst (RegisterNewUser userapi
          \<lparr>register_Email = ''a@x.com'', register_Password = ''password1''\<rparr> registered)
     = Inl ErrFailedToGetUser
   \<and> Register_handler (Some ErrFailedToGetUser) = 500
   \<and> users (usvc (snd (RegisterNewUser userapi
          \<lparr>register_Email = ''a@x.com'', register_Password = ''password1''\<rparr> registered)))
     = users (usvc registered)
   \<and> credentials (snd (RegisterNewUser userapi
          \<lparr>register_Email = ''a@x.com'', register_Password = ''password1''\<rparr> registered))
     = credentials registered"
proof -
  have "RegisterNewUser userapi
          \<lparr>register_Email = ''a@x.com'', register_Password = ''password1''\<rparr> registered
        = (Inl ErrFailedToGetUser, registered\<lparr>usvc := (usvc registered)\<lparr>made := 2\<rparr>\<rparr>)"
    by (simp add: RegisterNewUser_def call_user_def userapi_def Client_CreateUser_def
          UserHandler_CreateUser_def UserDataService_CreateUser_def userdb_CreateUser_def
          users_unique_violated_def registered_def world1_def world0_def svc0_def Let_def)
  then show ?thesis
    by (simp add: first_registration Register_handler_def)
qed

text \<open>
  Claim C9. On every branch the result of \<^verbatim>\<open>VerifyAccessToken\<close> is the same whatever
  the state of the identity provider, the credential table, the database connection, the
  random source and the notification channel are, and the call leaves all of them as
  they were: it depends on the tokens and the clock only.
\<close>

theorem C9_verification_is_pure:
  "fst (VerifyAccessToken accessToken refreshToken (with_store v w))
     = fst (VerifyAccessToken accessToken refreshToken w)
   \<and> snd (VerifyAccessToken accessToken refreshToken (with_store v w))
     = with_store v (snd (VerifyAccessToken accessToken refreshToken w))
   \<and> usvc (snd (VerifyAccessToken accessToken refreshToken w)) = usvc w
   \<and> credentials (snd (VerifyAccessToken accessToken refreshToken w)) = credentials w
   \<and> outbox (snd (VerifyAccessToken accessToken refreshToken w)) = outbox w"
proof -
  have "snd (VerifyAccessToken accessToken refreshToken (with_store w w))
          = with_store w (snd (VerifyAccessToken accessToken refreshToken w))"
    by (simp add: VerifyAccessToken_with_store)
  then have "snd (VerifyAccessToken accessToken refreshToken w)
          = with_store w (snd (VerifyAccessToken accessToken refreshToken w))"
    by (simp add: with_store_self)
  then have "usvc (snd (VerifyAccessToken accessToken refreshToken w)) = usvc w"
     "credentials (snd (VerifyAccessToken accessToken refreshToken w)) = credentials w"
     "outbox (snd (VerifyAccessToken accessToken refreshToken w)) = outbox w"
    by (metis with_store_fields)+
  then show ?thesis by (simp add: VerifyAccessToken_with_store)
qed

theorem C9_witness:
  "fst (VerifyAccessToken expired_access good_refresh (with_store world0 world1))
     = fst (VerifyAccessToken expired_access good_refresh world1)
   \<and> credentials (snd (VerifyAccessToken expired_access good_refresh world1))
     = credentials world1
   \<and> usvc (snd (VerifyAccessToken good_access good_refresh world1)) = usvc world1"
  using C9_verification_is_pure [of expired_access good_refresh world0 world1]
    C9_verification_is_pure [of good_access good_refresh world0 world1]
  by simp

text \<open>
  Claim C10. When the access token does not parse as valid and its claims do not yield
  a complete identity, \<^verbatim>\<open>VerifyAccessToken\<close> returns the unauthorized error for every
  refresh token, valid or not; the world is the one the parse of the access token left,
  so the refresh token is not parsed and no token is minted.
\<close>

theorem C10_refresh_alone_never_authenticates:
  assumes "jwt_ParseWithClaims accessToken access_keyFunc w = ((claims, accesstoken, err), w1)"
    and "err \<noteq> None \<or> token_invalid accesstoken"
    and "extractUserFromClaims claims = Inl userErr"
  shows "\<forall>refreshToken. VerifyAccessToken accessToken refreshToken w = (Inl ErrUserUnauthorized, w1)"
  using assms by (auto simp add: VerifyAccessToken_def)

theorem C10_witness:
  "VerifyAccessToken (Text ''garbage'') good_refresh world1 = (Inl ErrUserUnauthorized, world1)"
proof -
  have p: "jwt_ParseWithClaims (Text ''garbage'') access_keyFunc world1
             = ((Map.empty, None, Some jwt_ErrTokenMalformed), world1)"
    by (simp add: jwt_ParseWithClaims_def)
  have e: "extractUserFromClaims Map.empty
             = Inl (errors_New ''missing or invalid uuid in token claims'')"
    by (simp add: extractUserFromClaims_def)
  have i: "Some jwt_ErrTokenMalformed \<noteq> None \<or> token_invalid None" by simp
  show ?thesis
    using C10_refresh_alone_never_authenticates [OF p i e] by simp
qed

end
